theory Spec2Isabelle
  imports Complex_Main "HOL-Library.Char_ord" "HOL-Library.List_Lexorder" "HOL-Library.Multiset"
begin

section \<open>Data model\<close>

text \<open>
  The Django models that \<^verbatim>\<open>review/views.py\<close> reads (\<^verbatim>\<open>data.models\<close>) as records. Only
  the attributes that the views touch are kept. A model instance and its database row
  are the same value; \<^verbatim>\<open>Comparison.objects\<close> is the list of all rows, in table order.
  The attribute \<^verbatim>\<open>id\<close> of a student and the attributes \<^verbatim>\<open>key\<close> and \<^verbatim>\<open>name\<close> carry the
  name of their model as a prefix.
\<close>

record course =
  course_id :: nat
  course_key :: string
  course_name :: string

record exercise =
  exercise_key :: string
  exercise_name :: string
  course :: course

record student =
  student_id :: nat
  student_key :: string

record submission =
  exercise :: exercise
  student :: student
  created :: nat

record comparison =
  pk :: nat
  submission_a :: submission
  submission_b :: submission
  similarity :: real
  review :: int

section \<open>Suspect aggregation: the view \<^verbatim>\<open>marked_submissions\<close>\<close>

text \<open>
  One value of the dictionary \<^verbatim>\<open>suspects\<close>:
  \<^verbatim>\<open>{ 'key': s.key, 'sum': 0, 'comparisons': [] }\<close>; the field \<^verbatim>\<open>sum\<close> is
  \<open>sum_reviews\<close> here.
\<close>

record suspect =
  key :: string
  sum_reviews :: int
  comparisons :: "comparison list"

text \<open>
  A Python dictionary keeps its keys in insertion order, and \<^verbatim>\<open>values()\<close> lists
  them in that order: an association list. \<open>dict_set\<close> is \<^verbatim>\<open>d[k] = v\<close> (a new key
  goes to the end, a known key keeps its place), \<open>dict_modify\<close> is an in-place
  change of \<^verbatim>\<open>d[k]\<close>. Python raises KeyError for \<^verbatim>\<open>d[k]\<close> when \<open>k\<close> is not a
  key; the view reads \<^verbatim>\<open>suspects[s.id]\<close> only after it has made sure that the key is
  there, so \<open>dict_modify\<close> is never used on a missing key (where it changes nothing).
\<close>

type_synonym ('k, 'v) dict = "('k \<times> 'v) list"

primrec dict_set :: "'k \<Rightarrow> 'v \<Rightarrow> ('k, 'v) dict \<Rightarrow> ('k, 'v) dict" where
  "dict_set k v [] = [(k, v)]"
| "dict_set k v (p # ps) = (if fst p = k then (k, v) # ps else p # dict_set k v ps)"

primrec dict_modify :: "'k \<Rightarrow> ('v \<Rightarrow> 'v) \<Rightarrow> ('k, 'v) dict \<Rightarrow> ('k, 'v) dict" where
  "dict_modify k f [] = []"
| "dict_modify k f (p # ps) =
     (if fst p = k then (k, f (snd p)) # ps else p # dict_modify k f ps)"

definition dict_values :: "('k, 'v) dict \<Rightarrow> 'v list" where
  "dict_values d = map snd d"

text \<open>
  The queryset of lines 102--105: the comparisons of the course whose review is at
  least 5, ordered by the creation time of \<^verbatim>\<open>submission_a\<close>. Rows with equal creation
  times keep their table order (the database leaves that order open).
\<close>

definition flagged_comparisons :: "comparison list \<Rightarrow> course \<Rightarrow> comparison list" where
  "flagged_comparisons objects crs =
     sort_key (\<lambda>c. created (submission_a c))
       (filter (\<lambda>c. course_id (course (exercise (submission_a c))) = course_id crs
                    \<and> 5 \<le> review c) objects)"

text \<open>
  The body of the inner loop (lines 109--112) for one comparison \<open>c\<close> and one of its
  two students \<open>s\<close>.
\<close>

definition credit :: "comparison \<Rightarrow> student \<Rightarrow> (nat, suspect) dict \<Rightarrow> (nat, suspect) dict" where
  "credit c s suspects =
     (let suspects1 =
            (if map_of suspects (student_id s) = None
             then dict_set (student_id s)
                    \<lparr>key = student_key s, sum_reviews = 0, comparisons = []\<rparr> suspects
             else suspects);
          suspects2 = dict_modify (student_id s)
                        (\<lambda>e. e\<lparr>sum_reviews := sum_reviews e + review c\<rparr>) suspects1
      in dict_modify (student_id s) (\<lambda>e. e\<lparr>comparisons := comparisons e @ [c]\<rparr>) suspects2)"

text \<open>The body of the outer loop: both students of \<open>c\<close>, \<^verbatim>\<open>submission_a\<close>'s first.\<close>

definition credit_both :: "comparison \<Rightarrow> (nat, suspect) dict \<Rightarrow> (nat, suspect) dict" where
  "credit_both c suspects =
     fold (credit c) [student (submission_a c), student (submission_b c)] suspects"

definition aggregate :: "comparison list \<Rightarrow> (nat, suspect) dict" where
  "aggregate cs = fold credit_both cs []"

text \<open>
  \<^verbatim>\<open>sorted(xs, reverse=True, key=f)\<close>: Python's sort is stable, also when reversed
  (elements with equal keys keep the order they had in \<open>xs\<close>); CPython reverses the
  list, sorts it stably in ascending order and reverses the result.
\<close>

definition sorted_reverse :: "('a \<Rightarrow> int) \<Rightarrow> 'a list \<Rightarrow> 'a list" where
  "sorted_reverse f xs = rev (sort_key f (rev xs))"

text \<open>
  The view: the value under \<^verbatim>\<open>"suspects"\<close> in the context it hands to the template
  \<^verbatim>\<open>review/marked.html\<close>.
\<close>

definition marked_submissions :: "comparison list \<Rightarrow> course \<Rightarrow> suspect list" where
  "marked_submissions objects crs =
     sorted_reverse sum_reviews (dict_values (aggregate (flagged_comparisons objects crs)))"

text \<open>
  The sequence of pairs (comparison, student) that the two nested loops go through, the
  comparisons that one student id is credited with, and the order in which the elements
  of a list are seen for the first time (the order of the keys of a dictionary filled
  from that list).
\<close>

definition credits :: "comparison list \<Rightarrow> (comparison \<times> student) list" where
  "credits cs =
     concat (map (\<lambda>c. [(c, student (submission_a c)), (c, student (submission_b c))]) cs)"

definition contributions :: "nat \<Rightarrow> comparison list \<Rightarrow> comparison list" where
  "contributions k cs =
     concat (map (\<lambda>c. (if student_id (student (submission_a c)) = k then [c] else []) @
                       (if student_id (student (submission_b c)) = k then [c] else [])) cs)"

definition first_seen :: "'a list \<Rightarrow> 'a list" where
  "first_seen xs = fold (\<lambda>x acc. if x \<in> set acc then acc else acc @ [x]) xs []"

text \<open>
  The entry that a student has before a credit (a fresh one when the id is not yet a key),
  and one credit applied to an entry.
\<close>

definition fresh :: "student \<Rightarrow> suspect" where
  "fresh s = \<lparr>key = student_key s, sum_reviews = 0, comparisons = []\<rparr>"

definition entry_for :: "(nat, suspect) dict \<Rightarrow> student \<Rightarrow> suspect" where
  "entry_for d s = (case map_of d (student_id s) of None \<Rightarrow> fresh s | Some e \<Rightarrow> e)"

definition bump :: "comparison \<Rightarrow> suspect \<Rightarrow> suspect" where
  "bump c e = e\<lparr>sum_reviews := sum_reviews e + review c, comparisons := comparisons e @ [c]\<rparr>"

section \<open>Requests, responses and errors\<close>

text \<open>
  What the views read of a Django request. \<^verbatim>\<open>POST\<close> and \<^verbatim>\<open>GET\<close> are QueryDicts: an
  association list from each key to the value that \<^verbatim>\<open>request.POST[key]\<close> returns.
  \<open>is_ajax\<close> is the result of \<^verbatim>\<open>request.is_ajax()\<close>, \<open>http_method\<close> is
  \<^verbatim>\<open>request.method\<close>.
\<close>

record request =
  http_method :: string
  POST :: "(string \<times> string) list"
  GET :: "(string \<times> string) list"
  is_ajax :: bool

text \<open>
  An exception that leaves a view is an error value: \<open>Http404\<close> is raised by
  \<^verbatim>\<open>get_object_or_404\<close>; \<open>NotFound\<close> and \<open>InvalidArgument\<close> are the errors of the
  specification's taxonomy, raised by the code that the views call.
\<close>

datatype error = Http404 | NotFound | InvalidArgument

text \<open>
  The JSON bodies: \<^verbatim>\<open>{ "success": result }\<close> and the graph data. The responses:
  \<^verbatim>\<open>HttpResponse(body, status=n)\<close>, \<^verbatim>\<open>JsonResponse(data)\<close> and the rendered template
  \<^verbatim>\<open>review/comparison.html\<close> with the entries \<^verbatim>\<open>comparison\<close>, \<^verbatim>\<open>reverse\<close>, \<^verbatim>\<open>a\<close> and
  \<^verbatim>\<open>b\<close> of its context (the other entries come from the provider's code).
\<close>

datatype 'g json = Success bool | Graph 'g

datatype 'g response =
    HttpResponse string nat
  | JsonResponse "'g json"
  | RenderComparison comparison bool submission submission

section \<open>The view \<^verbatim>\<open>comparison\<close>\<close>

text \<open>
  \<^verbatim>\<open>get_object_or_404(Comparison, submission_a__exercise=exercise, pk=ck,
  submission_a__student__key=ak, submission_b__student__key=bk)\<close>.
\<close>

definition get_object_or_404 ::
  "comparison list \<Rightarrow> exercise \<Rightarrow> nat \<Rightarrow> string \<Rightarrow> string \<Rightarrow> error + comparison" where
  "get_object_or_404 objects ex ck ak bk =
     (case find (\<lambda>c. exercise (submission_a c) = ex \<and> pk c = ck
                      \<and> student_key (student (submission_a c)) = ak
                      \<and> student_key (student (submission_b c)) = bk) objects of
        None \<Rightarrow> Inl Http404
      | Some c \<Rightarrow> Inr c)"

text \<open>Lines 72--97: the page of the comparison.\<close>

definition render_comparison :: "request \<Rightarrow> comparison \<Rightarrow> 'g response" where
  "render_comparison request comparison =
     (if map_of (GET request) ''reverse'' \<noteq> None
      then RenderComparison comparison True (submission_b comparison) (submission_a comparison)
      else RenderComparison comparison False (submission_a comparison) (submission_b comparison))"

text \<open>
  The view (lines 63--97). \<^verbatim>\<open>Comparison.update_review\<close> is a method of \<^verbatim>\<open>data.models\<close>:
  the view takes it as the parameter \<open>update_review\<close>, which returns the comparison as
  it is stored after the call and the method's result. The view returns its response
  and the stored comparison. Python's \<^verbatim>\<open>x and y\<close> is \<^verbatim>\<open>x\<close> when \<^verbatim>\<open>x\<close> is false.
\<close>

definition comparison_view ::
  "(comparison \<Rightarrow> string \<Rightarrow> comparison \<times> bool) \<Rightarrow> comparison list \<Rightarrow> request \<Rightarrow> exercise
     \<Rightarrow> string \<Rightarrow> string \<Rightarrow> nat \<Rightarrow> error + ('g response \<times> comparison)" where
  "comparison_view update_review objects request ex ak bk ck =
     (case get_object_or_404 objects ex ck ak bk of
        Inl e \<Rightarrow> Inl e
      | Inr comparison \<Rightarrow>
          if http_method request = ''POST''
          then (let (comparison1, result) =
                      (case map_of (POST request) ''review'' of
                         None \<Rightarrow> (comparison, False)
                       | Some new_score \<Rightarrow> update_review comparison new_score)
                in if is_ajax request
                   then Inr (JsonResponse (Success result), comparison1)
                   else Inr (render_comparison request comparison1, comparison1))
          else Inr (render_comparison request comparison, comparison))"

section \<open>The view \<^verbatim>\<open>build_graph\<close>\<close>

definition missing_min_similarity :: string where
  "missing_min_similarity =
     ''Graph build arguments must contain '' @ [CHR 0x27] @ ''minSimilarity'' @ [CHR 0x27]
       @ '' in the body of a POST request.''"

text \<open>
  The view (lines 259--265). \<^verbatim>\<open>graph.generate_match_graph\<close> is a function of
  \<^verbatim>\<open>data.graph\<close>: the view takes it as a parameter, which returns the graph data or
  the exception it raises. The view has no handler, so the exception leaves the view.
  After the guard of line 261 the key is in \<^verbatim>\<open>request.POST\<close>, so the lookup of line 263
  finds it (the second \<open>None\<close> case is never reached).
\<close>

definition build_graph ::
  "(string \<Rightarrow> string \<Rightarrow> error + 'g) \<Rightarrow> request \<Rightarrow> course \<Rightarrow> error + 'g response" where
  "build_graph generate_match_graph request crs =
     (if POST request = [] \<or> map_of (POST request) ''minSimilarity'' = None
      then Inr (HttpResponse missing_min_similarity 400)
      else (case map_of (POST request) ''minSimilarity'' of
              None \<Rightarrow> Inr (HttpResponse missing_min_similarity 400)
            | Some min_similarity \<Rightarrow>
                (case generate_match_graph (course_key crs) min_similarity of
                   Inl e \<Rightarrow> Inl e
                 | Inr graph_data \<Rightarrow> Inr (JsonResponse (Graph graph_data)))))"

section \<open>Numbers in request arguments\<close>

text \<open>
  Modelled from the spec: what the specification calls a malformed score and a threshold
  that is not parseable as a number; the parsing is done by code of \<^verbatim>\<open>data.models\<close> and
  \<^verbatim>\<open>data.graph\<close>, which are not among the sources. The arguments of a request are
  strings. A decimal integer is an optional sign and at least one digit; a decimal number
  may have a point and at least one more digit.
\<close>

definition digit_val :: "char \<Rightarrow> nat option" where
  "digit_val c =
     (let n = (of_char c :: nat) in if 48 \<le> n \<and> n \<le> 57 then Some (n - 48) else None)"

fun parse_digits :: "nat \<Rightarrow> string \<Rightarrow> nat option" where
  "parse_digits n [] = Some n"
| "parse_digits n (c # cs) =
     (case digit_val c of None \<Rightarrow> None | Some d \<Rightarrow> parse_digits (10 * n + d) cs)"

definition parse_nat :: "string \<Rightarrow> nat option" where
  "parse_nat s = (if s = [] then None else parse_digits 0 s)"

definition parse_int :: "string \<Rightarrow> int option" where
  "parse_int s =
     (case s of
        [] \<Rightarrow> None
      | c # cs \<Rightarrow>
          if c = CHR ''-'' then map_option (\<lambda>n. - int n) (parse_nat cs)
          else if c = CHR ''+'' then map_option int (parse_nat cs)
          else map_option int (parse_nat s))"

definition parse_unsigned :: "string \<Rightarrow> real option" where
  "parse_unsigned s =
     (let whole = takeWhile (\<lambda>c. c \<noteq> CHR ''.'') s;
          rest = dropWhile (\<lambda>c. c \<noteq> CHR ''.'') s
      in case parse_nat whole of
           None \<Rightarrow> None
         | Some n \<Rightarrow>
             (case rest of
                [] \<Rightarrow> Some (real n)
              | _ # ds \<Rightarrow>
                  (case parse_nat ds of
                     None \<Rightarrow> None
                   | Some f \<Rightarrow> Some (real n + real f / 10 ^ length ds))))"

definition parse_number :: "string \<Rightarrow> real option" where
  "parse_number s =
     (case s of
        [] \<Rightarrow> None
      | c # cs \<Rightarrow>
          if c = CHR ''-'' then map_option uminus (parse_unsigned cs)
          else if c = CHR ''+'' then parse_unsigned cs
          else parse_unsigned s)"

section \<open>The review state machine\<close>

text \<open>
  Modelled from the spec: \<^verbatim>\<open>Comparison.update_review\<close> of \<^verbatim>\<open>data.models\<close>, which is not
  among the sources. The specification (4.4): the review score ranges over 0 (unreviewed)
  and 1 to N; \<^verbatim>\<open>update_review(new_score)\<close> validates that the new score is within the
  allowed scale, on success persists it and returns success; a malformed or out-of-range
  score is rejected with no mutation and failure is reported. The scale's maximum N is
  the parameter \<open>scale\<close>; the new score is the string of the request.
\<close>

definition update_review :: "int \<Rightarrow> comparison \<Rightarrow> string \<Rightarrow> comparison \<times> bool" where
  "update_review scale comparison new_score =
     (case parse_int new_score of
        None \<Rightarrow> (comparison, False)
      | Some r \<Rightarrow>
          if 0 \<le> r \<and> r \<le> scale then (comparison\<lparr>review := r\<rparr>, True)
          else (comparison, False))"

section \<open>The match graph builder\<close>

text \<open>
  Modelled from the spec: \<^verbatim>\<open>generate_match_graph\<close> of \<^verbatim>\<open>data.graph\<close>, which is not among
  the sources. The specification (4.1): retrieve all comparisons for exercises of the
  course; for each, if its similarity is at least the threshold, add an edge between the
  two authoring students, with one edge per pair of students that keeps the maximum
  similarity; the nodes are the students that are an endpoint of a surviving edge. An
  unknown course is \<open>NotFound\<close>; a threshold that is not a number, or is negative, is
  \<open>InvalidArgument\<close>.
\<close>

record match_graph =
  nodes :: "string list"
  edges :: "((string \<times> string) \<times> real) list"

text \<open>
  Modelled from the spec: the edge of a comparison joins its two authoring students,
  whichever is \<^verbatim>\<open>submission_a\<close>; the pair is put in the order of the keys.
\<close>

definition student_pair :: "comparison \<Rightarrow> string \<times> string" where
  "student_pair c =
     (let a = student_key (student (submission_a c));
          b = student_key (student (submission_b c))
      in if a \<le> b then (a, b) else (b, a))"

text \<open>
  Modelled from the spec: parallel submissions of the same pair of students make a single
  edge, which keeps the maximum similarity.
\<close>

primrec add_edge ::
  "string \<times> string \<Rightarrow> real \<Rightarrow> ((string \<times> string) \<times> real) list
     \<Rightarrow> ((string \<times> string) \<times> real) list" where
  "add_edge p v [] = [(p, v)]"
| "add_edge p v (e # es) =
     (if fst e = p then (p, max (snd e) v) # es else e # add_edge p v es)"

text \<open>
  Modelled from the spec: \<^verbatim>\<open>build(course, min_similarity)\<close>, the edges of the comparisons
  of the course with a similarity of at least \<open>min_similarity\<close> and their endpoints.
\<close>

definition build :: "comparison list \<Rightarrow> string \<Rightarrow> real \<Rightarrow> match_graph" where
  "build objects ck min_similarity =
     (let es = fold (\<lambda>c g. add_edge (student_pair c) (similarity c) g)
                 (filter (\<lambda>c. course_key (course (exercise (submission_a c))) = ck
                              \<and> min_similarity \<le> similarity c) objects) []
      in \<lparr>nodes = first_seen (concat (map (\<lambda>e. [fst (fst e), snd (fst e)]) es)),
          edges = es\<rparr>)"

text \<open>
  Modelled from the spec: the builder as the view calls it, with the course key and the
  threshold as the request gave it, and the builder's error conditions.
\<close>

definition generate_match_graph ::
  "course list \<Rightarrow> comparison list \<Rightarrow> string \<Rightarrow> string \<Rightarrow> error + match_graph" where
  "generate_match_graph courses objects ck min_similarity =
     (case parse_number min_similarity of
        None \<Rightarrow> Inl InvalidArgument
      | Some t \<Rightarrow>
          if t < 0 then Inl InvalidArgument
          else if ck \<notin> set (map course_key courses) then Inl NotFound
          else Inr (build objects ck t))"

text \<open>
  The largest similarity among the comparisons of \<open>cs\<close> between the pair of students
  \<open>q\<close>, starting from \<open>acc\<close>: what the fold of \<open>add_edge\<close> keeps for \<open>q\<close>.
\<close>

definition strongest ::
  "string \<times> string \<Rightarrow> comparison list \<Rightarrow> real option \<Rightarrow> real option" where
  "strongest q cs acc =
     fold (\<lambda>c acc. if student_pair c = q
                    then Some (case acc of None \<Rightarrow> similarity c
                               | Some w \<Rightarrow> max w (similarity c))
                    else acc) cs acc"

section \<open>Example data\<close>

text \<open>
  The scenario of the specification: course X, exercise E, students A, B and C with one
  submission each, made at the times \<open>tA\<close>, \<open>tB\<close> and \<open>tC\<close>, and the three comparisons.
\<close>

definition course_X :: course where
  "course_X = \<lparr>course_id = 1, course_key = ''X'', course_name = ''X''\<rparr>"

definition exercise_E :: exercise where
  "exercise_E = \<lparr>exercise_key = ''E'', exercise_name = ''E'', course = course_X\<rparr>"

definition student_A :: student where
  "student_A = \<lparr>student_id = 1, student_key = ''A''\<rparr>"

definition student_B :: student where
  "student_B = \<lparr>student_id = 2, student_key = ''B''\<rparr>"

definition student_C :: student where
  "student_C = \<lparr>student_id = 3, student_key = ''C''\<rparr>"

definition submission_by :: "student \<Rightarrow> nat \<Rightarrow> submission" where
  "submission_by s t = \<lparr>exercise = exercise_E, student = s, created = t\<rparr>"

definition comparison_AB :: "nat \<Rightarrow> nat \<Rightarrow> comparison" where
  "comparison_AB tA tB =
     \<lparr>pk = 1, submission_a = submission_by student_A tA,
      submission_b = submission_by student_B tB, similarity = 0.9, review = 0\<rparr>"

definition comparison_AC :: "nat \<Rightarrow> nat \<Rightarrow> comparison" where
  "comparison_AC tA tC =
     \<lparr>pk = 2, submission_a = submission_by student_A tA,
      submission_b = submission_by student_C tC, similarity = 0.4, review = 7\<rparr>"

definition comparison_BC :: "nat \<Rightarrow> nat \<Rightarrow> comparison" where
  "comparison_BC tB tC =
     \<lparr>pk = 3, submission_a = submission_by student_B tB,
      submission_b = submission_by student_C tC, similarity = 0.95, review = 6\<rparr>"

definition scenario :: "nat \<Rightarrow> nat \<Rightarrow> nat \<Rightarrow> comparison list" where
  "scenario tA tB tC = [comparison_AB tA tB, comparison_AC tA tC, comparison_BC tB tC]"

text \<open>A flagged comparison of B with A, and one of two submissions of A.\<close>

definition comparison_BA :: comparison where
  "comparison_BA =
     \<lparr>pk = 4, submission_a = submission_by student_B 1,
      submission_b = submission_by student_A 2, similarity = 0.9, review = 5\<rparr>"

definition comparison_AA :: comparison where
  "comparison_AA =
     \<lparr>pk = 5, submission_a = submission_by student_A 1,
      submission_b = submission_by student_A 2, similarity = 0.9, review = 5\<rparr>"

text \<open>Requests that post a review score or a similarity threshold.\<close>

definition post_review :: "string \<Rightarrow> bool \<Rightarrow> request" where
  "post_review new_score ajax =
     \<lparr>http_method = ''POST'', POST = [(''review'', new_score)], GET = [], is_ajax = ajax\<rparr>"

definition post_min_similarity :: "string \<Rightarrow> request" where
  "post_min_similarity v =
     \<lparr>http_method = ''POST'', POST = [(''minSimilarity'', v)], GET = [], is_ajax = True\<rparr>"


section \<open>Evaluation of the examples\<close>

lemmas example_defs = course_X_def exercise_E_def student_A_def student_B_def student_C_def
  submission_by_def scenario_def comparison_AB_def comparison_AC_def comparison_BC_def
  comparison_BA_def comparison_AA_def post_review_def post_min_similarity_def

lemmas marked_defs = marked_submissions_def sorted_reverse_def dict_values_def aggregate_def
  credit_both_def credit_def flagged_comparisons_def

lemmas parse_defs = parse_int_def parse_nat_def digit_val_def parse_number_def
  parse_unsigned_def

section \<open>The dictionary of suspects\<close>

lemma map_fst_dict_modify: "map fst (dict_modify k f d) = map fst d"
  by (induction d) auto

lemma map_of_dict_modify:
  "map_of (dict_modify k f d) k' = (if k' = k then map_option f (map_of d k) else map_of d k')"
  by (induction d) auto

lemma map_fst_dict_set:
  "map fst (dict_set k v d) = (if k \<in> set (map fst d) then map fst d else map fst d @ [k])"
  by (induction d) auto

lemma map_of_dict_set: "map_of (dict_set k v d) k' = (if k' = k then Some v else map_of d k')"
  by (induction d) auto

text \<open>One credit: the keys of the dictionary and the entry of every key after it.\<close>

lemma keys_credit:
  "map fst (credit c s d) =
     (if student_id s \<in> set (map fst d) then map fst d else map fst d @ [student_id s])"
  by (simp add: credit_def Let_def map_fst_dict_modify map_fst_dict_set map_of_eq_None_iff)

lemma lookup_credit:
  "map_of (credit c s d) k =
     (if k = student_id s then Some (bump c (entry_for d s)) else map_of d k)"
  by (auto simp: credit_def Let_def map_of_dict_modify map_of_dict_set bump_def fresh_def
        entry_for_def split: option.splits)

lemma distinct_credit: "distinct (map fst d) \<Longrightarrow> distinct (map fst (credit c s d))"
  by (simp add: keys_credit)

text \<open>The nested loops are one loop over the pairs of \<open>credits\<close>.\<close>

lemma aggregate_credits:
  "fold credit_both cs d = fold (\<lambda>p. credit (fst p) (snd p)) (credits cs) d"
  by (induction cs arbitrary: d) (simp_all add: credits_def credit_both_def)

lemma contributions_credits:
  "map fst (filter (\<lambda>p. student_id (snd p) = k) (credits cs)) = contributions k cs"
  by (induction cs) (simp_all add: credits_def contributions_def)

lemma distinct_fold_credit:
  "distinct (map fst d) \<Longrightarrow> distinct (map fst (fold (\<lambda>p. credit (fst p) (snd p)) ps d))"
  by (induction ps arbitrary: d) (simp_all add: distinct_credit)

lemma distinct_aggregate: "distinct (map fst (aggregate cs))"
  by (simp add: aggregate_def aggregate_credits distinct_fold_credit)

lemma keys_fold_credit:
  "map fst (fold (\<lambda>p. credit (fst p) (snd p)) ps d) =
     fold (\<lambda>x acc. if x \<in> set acc then acc else acc @ [x])
       (map (\<lambda>p. student_id (snd p)) ps) (map fst d)"
  by (induction ps arbitrary: d) (simp_all add: keys_credit)

lemma keys_aggregate:
  "map fst (aggregate cs) = first_seen (map (\<lambda>p. student_id (snd p)) (credits cs))"
  by (simp add: aggregate_def aggregate_credits keys_fold_credit first_seen_def)

lemma lookup_fold_credit:
  "map_of (fold (\<lambda>p. credit (fst p) (snd p)) ps d) k =
     (case filter (\<lambda>p. student_id (snd p) = k) ps of
        [] \<Rightarrow> map_of d k
      | p # qs \<Rightarrow>
          (let e = (case map_of d k of None \<Rightarrow> fresh (snd p) | Some e \<Rightarrow> e)
           in Some (e\<lparr>sum_reviews := sum_reviews e
                                       + sum_list (map (\<lambda>q. review (fst q)) (p # qs)),
                      comparisons := comparisons e @ map fst (p # qs)\<rparr>)))"
proof (induction ps arbitrary: d)
  case Nil
  show ?case by simp
next
  case (Cons p ps)
  show ?case
    by (simp add: Cons.IH lookup_credit bump_def entry_for_def Let_def
          split: list.splits option.splits)
qed

lemma lookup_aggregate:
  "map_of (aggregate cs) k =
     (case filter (\<lambda>p. student_id (snd p) = k) (credits cs) of
        [] \<Rightarrow> None
      | p # qs \<Rightarrow> Some \<lparr>key = student_key (snd p),
                         sum_reviews = sum_list (map review (contributions k cs)),
                         comparisons = contributions k cs\<rparr>)"
  by (simp add: aggregate_def aggregate_credits lookup_fold_credit fresh_def
        contributions_credits [symmetric] comp_def split: list.splits)

lemma lookup_aggregate_summary:
  "map_option (\<lambda>e. (sum_reviews e, comparisons e)) (map_of (aggregate cs) k) =
     (if contributions k cs = [] then None
      else Some (sum_list (map review (contributions k cs)), contributions k cs))"
proof -
  have "(contributions k cs = []) = (filter (\<lambda>p. student_id (snd p) = k) (credits cs) = [])"
    by (simp add: contributions_credits [symmetric])
  then show ?thesis
    by (simp add: lookup_aggregate split: list.splits)
qed

lemma set_contributions:
  "c \<in> set (contributions k cs) \<Longrightarrow>
     c \<in> set cs \<and> (student_id (student (submission_a c)) = k
                    \<or> student_id (student (submission_b c)) = k)"
  by (auto simp: contributions_def split: if_splits)

lemma count_contributions:
  "count_list (contributions k cs) c =
     (if student_id (student (submission_a c)) = k then count_list cs c else 0) +
     (if student_id (student (submission_b c)) = k then count_list cs c else 0)"
  by (induction cs) (auto simp: contributions_def)

lemma set_flagged_comparisons: "c \<in> set (flagged_comparisons objects crs) \<Longrightarrow> 5 \<le> review c"
  by (simp add: flagged_comparisons_def)

section \<open>Python's reversed stable sort\<close>

lemma sorted_reverse_descending: "sorted_wrt (\<lambda>x y. f y \<le> f x) (sorted_reverse f xs)"
proof -
  have "sorted (map f (sort_key f (rev xs)))"
    by simp
  then have "sorted_wrt (\<lambda>x y. f x \<le> f y) (sort_key f (rev xs))"
    by (simp add: sorted_wrt_map)
  then show ?thesis
    by (simp add: sorted_reverse_def sorted_wrt_rev)
qed

lemma sorted_reverse_stable:
  "filter (\<lambda>e. f e = v) (sorted_reverse f xs) = filter (\<lambda>e. f e = v) xs"
proof -
  have "filter (\<lambda>e. f e = v) (sorted_reverse f xs)
          = rev (filter (\<lambda>e. f e = v) (sort_key f (rev xs)))"
    by (simp add: sorted_reverse_def rev_filter)
  also have "\<dots> = rev (filter (\<lambda>e. f e = v) (rev xs))"
    by (simp only: sort_key_stable)
  also have "\<dots> = filter (\<lambda>e. f e = v) xs"
    by (simp add: rev_filter)
  finally show ?thesis .
qed

lemma set_sorted_reverse: "set (sorted_reverse f xs) = set xs"
  by (simp add: sorted_reverse_def)

section \<open>The views and the review state machine\<close>

lemma update_review_invalid:
  "parse_int new_score = None \<or> (\<exists>r. parse_int new_score = Some r \<and> (r < 0 \<or> scale < r))
    \<Longrightarrow> update_review scale c new_score = (c, False)"
  by (auto simp: update_review_def)

lemma update_review_valid:
  "parse_int new_score = Some r \<Longrightarrow> 0 \<le> r \<Longrightarrow> r \<le> scale
    \<Longrightarrow> update_review scale c new_score = (c\<lparr>review := r\<rparr>, True)"
  by (simp add: update_review_def)

lemma comparison_view_post:
  "get_object_or_404 objects ex ck ak bk = Inr c \<Longrightarrow> http_method request = ''POST'' \<Longrightarrow>
   comparison_view upd objects request ex ak bk ck =
     Inr (if is_ajax request
          then JsonResponse (Success (case map_of (POST request) ''review'' of
                                        None \<Rightarrow> False | Some v \<Rightarrow> snd (upd c v)))
          else render_comparison request
                 (case map_of (POST request) ''review'' of
                    None \<Rightarrow> c | Some v \<Rightarrow> fst (upd c v)),
          case map_of (POST request) ''review'' of None \<Rightarrow> c | Some v \<Rightarrow> fst (upd c v))"
  by (simp add: comparison_view_def split: option.splits prod.splits)

lemma build_graph_cases:
  "build_graph gen request crs =
     (case map_of (POST request) ''minSimilarity'' of
        None \<Rightarrow> Inr (HttpResponse missing_min_similarity 400)
      | Some v \<Rightarrow> (case gen (course_key crs) v of
                     Inl e \<Rightarrow> Inl e
                   | Inr g \<Rightarrow> Inr (JsonResponse (Graph g))))"
  by (cases "POST request") (simp_all add: build_graph_def split: option.splits)

section \<open>The edges of the match graph\<close>

lemma map_fst_add_edge:
  "map fst (add_edge p v g) = (if p \<in> set (map fst g) then map fst g else map fst g @ [p])"
  by (induction g) auto

lemma map_of_add_edge:
  "map_of (add_edge p v g) q =
     (if q = p then Some (case map_of g p of None \<Rightarrow> v | Some w \<Rightarrow> max w v) else map_of g q)"
  by (induction g) auto

lemma distinct_fold_add_edge:
  "distinct (map fst g) \<Longrightarrow>
     distinct (map fst (fold (\<lambda>c g. add_edge (student_pair c) (similarity c) g) cs g))"
  by (induction cs arbitrary: g) (simp_all add: map_fst_add_edge)

lemma lookup_fold_add_edge:
  "map_of (fold (\<lambda>c g. add_edge (student_pair c) (similarity c) g) cs g) q
     = strongest q cs (map_of g q)"
  by (induction cs arbitrary: g) (simp_all add: strongest_def map_of_add_edge)

lemma strongest_snoc:
  "strongest q (cs @ [c]) acc =
     (if student_pair c = q
      then Some (case strongest q cs acc of None \<Rightarrow> similarity c
                 | Some w \<Rightarrow> max w (similarity c))
      else strongest q cs acc)"
  by (simp add: strongest_def)

lemma strongest_None:
  "strongest q cs None = None \<longleftrightarrow> (\<forall>c \<in> set cs. student_pair c \<noteq> q)"
  by (induction cs rule: rev_induct) (auto simp: strongest_snoc, simp add: strongest_def)

text \<open>
  The value kept for a pair is the similarity of one of its comparisons and an upper
  bound of the similarities of all of them.
\<close>

lemma strongest_Some:
  "strongest q cs None = Some v \<longleftrightarrow>
     (\<exists>c \<in> set cs. student_pair c = q \<and> similarity c = v)
     \<and> (\<forall>c \<in> set cs. student_pair c = q \<longrightarrow> similarity c \<le> v)"
proof (induction cs arbitrary: v rule: rev_induct)
  case Nil
  show ?case
    by (simp add: strongest_def)
next
  case (snoc c cs)
  show ?case
  proof (cases "student_pair c = q")
    case False
    then show ?thesis
      by (auto simp: strongest_snoc snoc.IH)
  next
    case True
    show ?thesis
    proof (cases "strongest q cs None")
      case None
      then have "\<forall>c \<in> set cs. student_pair c \<noteq> q"
        by (simp add: strongest_None)
      with True None show ?thesis
        by (auto simp: strongest_snoc)
    next
      case (Some w)
      then have w: "\<exists>c \<in> set cs. student_pair c = q \<and> similarity c = w"
        "\<forall>c \<in> set cs. student_pair c = q \<longrightarrow> similarity c \<le> w"
        by (simp_all add: snoc.IH)
      have "strongest q (cs @ [c]) None = Some (max w (similarity c))"
        using True Some by (simp add: strongest_snoc)
      moreover have "max w (similarity c) = v \<longleftrightarrow>
          (\<exists>c' \<in> set (cs @ [c]). student_pair c' = q \<and> similarity c' = v)
          \<and> (\<forall>c' \<in> set (cs @ [c]). student_pair c' = q \<longrightarrow> similarity c' \<le> v)"
      proof
        assume "max w (similarity c) = v"
        with w True show "(\<exists>c' \<in> set (cs @ [c]). student_pair c' = q \<and> similarity c' = v)
          \<and> (\<forall>c' \<in> set (cs @ [c]). student_pair c' = q \<longrightarrow> similarity c' \<le> v)"
          by (fastforce simp: max_def split: if_splits)
      next
        assume r: "(\<exists>c' \<in> set (cs @ [c]). student_pair c' = q \<and> similarity c' = v)
          \<and> (\<forall>c' \<in> set (cs @ [c]). student_pair c' = q \<longrightarrow> similarity c' \<le> v)"
        with w True have "w \<le> v" "similarity c \<le> v"
          by auto
        moreover from r w have "v = similarity c \<or> v \<le> w"
          by auto
        ultimately show "max w (similarity c) = v"
          by (auto simp: max_def)
      qed
      ultimately show ?thesis
        by simp
    qed
  qed
qed

lemma edges_build_iff:
  "(q, v) \<in> set (edges (build objects ck t)) \<longleftrightarrow>
     (\<exists>c \<in> set objects. course_key (course (exercise (submission_a c))) = ck
         \<and> t \<le> similarity c \<and> student_pair c = q \<and> similarity c = v)
     \<and> (\<forall>c \<in> set objects. course_key (course (exercise (submission_a c))) = ck
         \<and> t \<le> similarity c \<and> student_pair c = q \<longrightarrow> similarity c \<le> v)"
proof -
  let ?cs = "filter (\<lambda>c. course_key (course (exercise (submission_a c))) = ck
                          \<and> t \<le> similarity c) objects"
  let ?es = "fold (\<lambda>c g. add_edge (student_pair c) (similarity c) g) ?cs []"
  have "distinct (map fst ?es)"
    by (simp add: distinct_fold_add_edge)
  then have "(q, v) \<in> set ?es \<longleftrightarrow> map_of ?es q = Some v"
    by simp
  also have "\<dots> \<longleftrightarrow> strongest q ?cs None = Some v"
    by (simp add: lookup_fold_add_edge)
  also have "\<dots> \<longleftrightarrow> (\<exists>c \<in> set ?cs. student_pair c = q \<and> similarity c = v)
     \<and> (\<forall>c \<in> set ?cs. student_pair c = q \<longrightarrow> similarity c \<le> v)"
    by (rule strongest_Some)
  finally have "(q, v) \<in> set ?es \<longleftrightarrow>
     (\<exists>c \<in> set ?cs. student_pair c = q \<and> similarity c = v)
     \<and> (\<forall>c \<in> set ?cs. student_pair c = q \<longrightarrow> similarity c \<le> v)" .
  moreover have "edges (build objects ck t) = ?es"
    by (simp add: build_def Let_def)
  ultimately show ?thesis
    by auto
qed

section \<open>The claims on the suspect aggregation\<close>

text \<open>
  C1, as stated, fails: one flagged comparison of B's submission with A's gives both
  students the total 5, and the list has B before A, although the key of A is the
  smaller one.
\<close>

theorem marked_submissions_tie_counterexample:
  "map key (marked_submissions [comparison_BA] course_X) = [''B'', ''A'']
   \<and> map sum_reviews (marked_submissions [comparison_BA] course_X) = [5, 5]
   \<and> ''A'' < ''B''"
  by (simp add: marked_defs example_defs)

text \<open>
  C1, amended: the list of suspects is sorted descending by the summed review score,
  and the sort is stable: the students with one and the same total \<open>v\<close> appear in the
  order of the dictionary, which is the order in which the loop over the flagged
  comparisons credits a student for the first time. The student keys play no part.
\<close>

theorem marked_submissions_sorted_stable:
  "sorted_wrt (\<lambda>x y. sum_reviews y \<le> sum_reviews x) (marked_submissions objects crs)
   \<and> filter (\<lambda>e. sum_reviews e = v) (marked_submissions objects crs)
       = filter (\<lambda>e. sum_reviews e = v)
           (dict_values (aggregate (flagged_comparisons objects crs)))
   \<and> map fst (aggregate (flagged_comparisons objects crs))
       = first_seen (map (\<lambda>p. student_id (snd p))
           (credits (flagged_comparisons objects crs)))"
  by (simp add: marked_submissions_def sorted_reverse_descending sorted_reverse_stable
        keys_aggregate)

text \<open>
  C2: in the scenario of the specification, whenever the three submissions were made,
  the suspects are C with 13, A with 7 and B with 6, in this order.
\<close>

theorem scenario_suspects:
  "map key (marked_submissions (scenario tA tB tC) course_X) = [''C'', ''A'', ''B'']
   \<and> map sum_reviews (marked_submissions (scenario tA tB tC) course_X) = [13, 7, 6]"
  by (simp add: marked_defs example_defs)

text \<open>
  C3: the aggregation goes through exactly the comparisons of the course whose review
  is at least 5 (each as often as it is stored), and the entry of a student id \<open>k\<close> is
  made of exactly the credits of \<open>k\<close>: every flagged comparison is in the list of the
  student of its \<^verbatim>\<open>submission_a\<close> and in the list of the student of its
  \<^verbatim>\<open>submission_b\<close>, in the order of the loop, the sum is the sum of their reviews, and a
  student with no credit has no entry.
\<close>

theorem suspects_credit_flagged:
  "mset (flagged_comparisons objects crs)
     = mset (filter (\<lambda>c. course_id (course (exercise (submission_a c))) = course_id crs
                         \<and> 5 \<le> review c) objects)
   \<and> map_option (\<lambda>e. (sum_reviews e, comparisons e))
         (map_of (aggregate (flagged_comparisons objects crs)) k)
       = (if contributions k (flagged_comparisons objects crs) = [] then None
          else Some (sum_list (map review (contributions k (flagged_comparisons objects crs))),
                     contributions k (flagged_comparisons objects crs)))"
  by (simp add: lookup_aggregate_summary) (simp add: flagged_comparisons_def)

text \<open>
  C9: every entry of the returned list has as its sum the sum of the reviews of its
  comparisons; it is the entry of a student whose key it carries, and each of its
  comparisons has a review of at least 5 and that student's id at one of its ends.
\<close>

theorem suspect_entry_sound:
  assumes "e \<in> set (marked_submissions objects crs)"
  shows "sum_reviews e = sum_list (map review (comparisons e))
    \<and> (\<exists>s::student. key e = student_key s
          \<and> map_of (aggregate (flagged_comparisons objects crs)) (student_id s) = Some e
          \<and> (\<forall>c \<in> set (comparisons e). 5 \<le> review c
                \<and> (student_id (student (submission_a c)) = student_id s
                   \<or> student_id (student (submission_b c)) = student_id s)))"
proof -
  let ?Q = "flagged_comparisons objects crs"
  from assms have "e \<in> snd ` set (aggregate ?Q)"
    by (simp add: marked_submissions_def set_sorted_reverse dict_values_def)
  then obtain k where "(k, e) \<in> set (aggregate ?Q)"
    by force
  then have look: "map_of (aggregate ?Q) k = Some e"
    by (simp add: distinct_aggregate)
  then obtain p qs where
    f: "filter (\<lambda>p. student_id (snd p) = k) (credits ?Q) = p # qs" and
    e: "e = \<lparr>key = student_key (snd p),
             sum_reviews = sum_list (map review (contributions k ?Q)),
             comparisons = contributions k ?Q\<rparr>"
    by (auto simp: lookup_aggregate split: list.splits)
  from f have "p \<in> set (filter (\<lambda>p. student_id (snd p) = k) (credits ?Q))"
    by simp
  then have k: "student_id (snd p) = k"
    by simp
  have ends: "\<forall>c \<in> set (comparisons e). 5 \<le> review c
                \<and> (student_id (student (submission_a c)) = student_id (snd p)
                   \<or> student_id (student (submission_b c)) = student_id (snd p))"
    using e k by (auto dest!: set_contributions dest: set_flagged_comparisons)
  have total: "sum_reviews e = sum_list (map review (comparisons e))"
    using e by simp
  have name: "key e = student_key (snd p)"
    using e by simp
  have "map_of (aggregate ?Q) (student_id (snd p)) = Some e"
    using look k by simp
  with name ends have "\<exists>s::student. key e = student_key s
          \<and> map_of (aggregate ?Q) (student_id s) = Some e
          \<and> (\<forall>c \<in> set (comparisons e). 5 \<le> review c
                \<and> (student_id (student (submission_a c)) = student_id s
                   \<or> student_id (student (submission_b c)) = student_id s))"
    by blast
  with total show ?thesis
    by blast
qed

theorem suspect_entry_sound_witness:
  "\<lparr>key = ''C'', sum_reviews = 13, comparisons = [comparison_AC 1 3, comparison_BC 2 3]\<rparr>
     \<in> set (marked_submissions (scenario 1 2 3) course_X)
   \<and> (13::int) = sum_list (map review [comparison_AC 1 3, comparison_BC 2 3])
   \<and> 5 \<le> review (comparison_AC 1 3) \<and> 5 \<le> review (comparison_BC 2 3)"
proof -
  let ?e = "\<lparr>key = ''C'', sum_reviews = 13,
             comparisons = [comparison_AC 1 3, comparison_BC 2 3]\<rparr>"
  have h: "?e \<in> set (marked_submissions (scenario 1 2 3) course_X)"
    by (simp add: marked_defs example_defs)
  have r: "(13::int) = sum_list (map review [comparison_AC 1 3, comparison_BC 2 3])
      \<and> 5 \<le> review (comparison_AC 1 3) \<and> 5 \<le> review (comparison_BC 2 3)"
    by (simp add: example_defs)
  from suspect_entry_sound [OF h] h r show ?thesis
    by blast
qed

text \<open>
  C10: when both submissions of a flagged comparison \<open>c\<close> are by the same student, the
  loop body adds twice the review of \<open>c\<close> to the student's sum and appends \<open>c\<close> twice
  to the student's list; in the dictionary of the view the student's list holds \<open>c\<close>
  twice for each time it is stored, and the sum counts every element of the list.
\<close>

theorem same_student_credited_twice:
  assumes "student_id (student (submission_a c)) = student_id (student (submission_b c))"
    and "c \<in> set (flagged_comparisons objects crs)"
  shows "map_of (credit_both c d) (student_id (student (submission_a c)))
      = Some ((entry_for d (student (submission_a c)))
          \<lparr>sum_reviews := sum_reviews (entry_for d (student (submission_a c))) + 2 * review c,
           comparisons := comparisons (entry_for d (student (submission_a c))) @ [c, c]\<rparr>)
    \<and> (\<exists>e. map_of (aggregate (flagged_comparisons objects crs))
              (student_id (student (submission_a c))) = Some e
          \<and> 0 < count_list (flagged_comparisons objects crs) c
          \<and> count_list (comparisons e) c = 2 * count_list (flagged_comparisons objects crs) c
          \<and> sum_reviews e = sum_list (map review (comparisons e)))"
proof
  show "map_of (credit_both c d) (student_id (student (submission_a c)))
      = Some ((entry_for d (student (submission_a c)))
          \<lparr>sum_reviews := sum_reviews (entry_for d (student (submission_a c))) + 2 * review c,
           comparisons := comparisons (entry_for d (student (submission_a c))) @ [c, c]\<rparr>)"
    using assms(1)
    by (simp add: credit_both_def lookup_credit bump_def entry_for_def fresh_def
          split: option.splits)
next
  let ?Q = "flagged_comparisons objects crs"
  let ?k = "student_id (student (submission_a c))"
  have "count_list ?Q c \<noteq> 0"
    using assms(2) by (simp add: count_list_0_iff)
  then have pos: "0 < count_list ?Q c"
    by simp
  have twice: "count_list (contributions ?k ?Q) c = 2 * count_list ?Q c"
    using assms(1) by (simp add: count_contributions)
  with pos have "contributions ?k ?Q \<noteq> []"
    by auto
  then have "map_option (\<lambda>e. (sum_reviews e, comparisons e)) (map_of (aggregate ?Q) ?k)
      = Some (sum_list (map review (contributions ?k ?Q)), contributions ?k ?Q)"
    by (simp add: lookup_aggregate_summary)
  then obtain e where "map_of (aggregate ?Q) ?k = Some e"
    and "sum_reviews e = sum_list (map review (contributions ?k ?Q))"
    and "comparisons e = contributions ?k ?Q"
    by auto
  with pos twice show "\<exists>e. map_of (aggregate ?Q) ?k = Some e
          \<and> 0 < count_list ?Q c
          \<and> count_list (comparisons e) c = 2 * count_list ?Q c
          \<and> sum_reviews e = sum_list (map review (comparisons e))"
    by simp
qed

theorem same_student_credited_twice_witness:
  "student_id (student (submission_a comparison_AA))
     = student_id (student (submission_b comparison_AA))
   \<and> comparison_AA \<in> set (flagged_comparisons [comparison_AA] course_X)
   \<and> map_of (credit_both comparison_AA []) 1
       = Some \<lparr>key = ''A'', sum_reviews = 10, comparisons = [comparison_AA, comparison_AA]\<rparr>
   \<and> map_of (aggregate (flagged_comparisons [comparison_AA] course_X)) 1
       = Some \<lparr>key = ''A'', sum_reviews = 10, comparisons = [comparison_AA, comparison_AA]\<rparr>"
proof -
  have h1: "student_id (student (submission_a comparison_AA))
     = student_id (student (submission_b comparison_AA))"
    by (simp add: example_defs)
  have h2: "comparison_AA \<in> set (flagged_comparisons [comparison_AA] course_X)"
    by (simp add: flagged_comparisons_def example_defs)
  have id: "student_id (student (submission_a comparison_AA)) = 1"
    by (simp add: example_defs)
  have fl: "flagged_comparisons [comparison_AA] course_X = [comparison_AA]"
    by (simp add: flagged_comparisons_def example_defs)
  have st: "entry_for [] (student (submission_a comparison_AA))
      = \<lparr>key = ''A'', sum_reviews = 0, comparisons = []\<rparr>"
    by (simp add: entry_for_def fresh_def example_defs)
  have rv: "review comparison_AA = 5"
    by (simp add: example_defs)
  have "map_of (credit_both comparison_AA []) (student_id (student (submission_a comparison_AA)))
      = Some ((entry_for [] (student (submission_a comparison_AA)))
          \<lparr>sum_reviews := sum_reviews (entry_for [] (student (submission_a comparison_AA)))
                            + 2 * review comparison_AA,
           comparisons := comparisons (entry_for [] (student (submission_a comparison_AA)))
                            @ [comparison_AA, comparison_AA]\<rparr>)"
    using same_student_credited_twice [OF h1 h2, of "[]"] by (rule conjunct1)
  then have step: "map_of (credit_both comparison_AA []) 1
       = Some \<lparr>key = ''A'', sum_reviews = 10, comparisons = [comparison_AA, comparison_AA]\<rparr>"
    by (simp add: id st rv)
  then have "map_of (aggregate (flagged_comparisons [comparison_AA] course_X)) 1
       = Some \<lparr>key = ''A'', sum_reviews = 10, comparisons = [comparison_AA, comparison_AA]\<rparr>"
    by (simp add: fl aggregate_def)
  with h1 h2 step show ?thesis
    by blast
qed


section \<open>The claims on the endpoint \<^verbatim>\<open>build_graph\<close>\<close>

text \<open>
  C4, as stated, fails for a value that is present but malformed: with a builder that
  raises \<open>InvalidArgument\<close> for it, as the specification asks, the thresholds
  \<^verbatim>\<open>abc\<close> and \<^verbatim>\<open>-1\<close> do not give the response with status 400; the builder's
  exception leaves the view, which has no handler for it.
\<close>

theorem build_graph_malformed_counterexample:
  "build_graph (generate_match_graph [course_X] (scenario 1 2 3))
       (post_min_similarity ''abc'') course_X = Inl InvalidArgument
   \<and> build_graph (generate_match_graph [course_X] (scenario 1 2 3))
       (post_min_similarity ''-1'') course_X = Inl InvalidArgument"
  by (simp add: build_graph_def generate_match_graph_def parse_defs example_defs)

text \<open>
  C4, amended, for every builder \<open>gen\<close>: a request without \<^verbatim>\<open>minSimilarity\<close> gets the
  response with status 400 and the message; a request with a value \<open>v\<close> gets whatever
  the builder makes of \<open>v\<close>, which the view hands over as it came (it neither parses nor
  clamps it): the graph as JSON, or the builder's exception; the view never answers a
  present value with the status 400.
\<close>

theorem build_graph_responses:
  "(map_of (POST request) ''minSimilarity'' = None \<longrightarrow>
      build_graph gen request crs = Inr (HttpResponse missing_min_similarity 400))
   \<and> (map_of (POST request) ''minSimilarity'' = Some v \<longrightarrow>
        build_graph gen request crs
          = (case gen (course_key crs) v of
               Inl e \<Rightarrow> Inl e
             | Inr g \<Rightarrow> Inr (JsonResponse (Graph g)))
        \<and> (\<forall>body. build_graph gen request crs \<noteq> Inr (HttpResponse body 400)))"
  by (auto simp: build_graph_cases split: sum.splits)

theorem build_graph_responses_witness:
  "map_of (POST (post_review ''6'' True)) ''minSimilarity'' = None
   \<and> build_graph (generate_match_graph [course_X] (scenario 1 2 3)) (post_review ''6'' True)
       course_X = Inr (HttpResponse missing_min_similarity 400)
   \<and> map_of (POST (post_min_similarity ''0.5'')) ''minSimilarity'' = Some ''0.5''
   \<and> build_graph (generate_match_graph [course_X] (scenario 1 2 3))
       (post_min_similarity ''0.5'') course_X
       = Inr (JsonResponse (Graph \<lparr>nodes = [''A'', ''B'', ''C''],
                edges = [((''A'', ''B''), 9 / 10), ((''B'', ''C''), 19 / 20)]\<rparr>))"
proof -
  have m: "map_of (POST (post_review ''6'' True)) ''minSimilarity'' = None"
    by (simp add: post_review_def)
  have p: "map_of (POST (post_min_similarity ''0.5'')) ''minSimilarity'' = Some ''0.5''"
    by (simp add: post_min_similarity_def)
  have g: "generate_match_graph [course_X] (scenario 1 2 3) (course_key course_X) ''0.5''
      = Inr \<lparr>nodes = [''A'', ''B'', ''C''],
             edges = [((''A'', ''B''), 9 / 10), ((''B'', ''C''), 19 / 20)]\<rparr>"
    by (simp add: generate_match_graph_def build_def student_pair_def first_seen_def
          parse_defs example_defs)
  have a: "build_graph (generate_match_graph [course_X] (scenario 1 2 3))
       (post_review ''6'' True) course_X = Inr (HttpResponse missing_min_similarity 400)"
    using build_graph_responses
      [where request = "post_review ''6'' True" and crs = course_X
         and gen = "generate_match_graph [course_X] (scenario 1 2 3)"]
      m by blast
  have "build_graph (generate_match_graph [course_X] (scenario 1 2 3))
       (post_min_similarity ''0.5'') course_X
     = (case generate_match_graph [course_X] (scenario 1 2 3) (course_key course_X) ''0.5'' of
          Inl e \<Rightarrow> Inl e
        | Inr g \<Rightarrow> Inr (JsonResponse (Graph g)))"
    using build_graph_responses
      [where request = "post_min_similarity ''0.5''" and v = "''0.5''" and crs = course_X
         and gen = "generate_match_graph [course_X] (scenario 1 2 3)"]
      p by blast
  then have b: "build_graph (generate_match_graph [course_X] (scenario 1 2 3))
       (post_min_similarity ''0.5'') course_X
       = Inr (JsonResponse (Graph \<lparr>nodes = [''A'', ''B'', ''C''],
                edges = [((''A'', ''B''), 9 / 10), ((''B'', ''C''), 19 / 20)]\<rparr>))"
    by (simp only: g sum.case)
  from m p a b show ?thesis
    by blast
qed

section \<open>The claims on the review of a comparison\<close>

text \<open>
  C5: a new score that is not a decimal integer, or is below 0 or above the scale's
  maximum, leaves the comparison as it is stored and reports failure; the view then
  answers an AJAX request with \<^verbatim>\<open>{ "success": false }\<close> and the stored comparison is
  the one that was there.
\<close>

theorem update_review_rejects:
  assumes "parse_int new_score = None
    \<or> (\<exists>r. parse_int new_score = Some r \<and> (r < 0 \<or> scale < r))"
  shows "update_review scale c new_score = (c, False)
    \<and> (\<forall>objects request ex ak bk ck.
          get_object_or_404 objects ex ck ak bk = Inr c \<longrightarrow>
          http_method request = ''POST'' \<longrightarrow>
          map_of (POST request) ''review'' = Some new_score \<longrightarrow>
          comparison_view (update_review scale) objects request ex ak bk ck
            = Inr (if is_ajax request then JsonResponse (Success False)
                   else (render_comparison request c :: 'g response), c))"
  using assms by (simp add: update_review_invalid comparison_view_post)

theorem update_review_rejects_witness:
  "parse_int ''abc'' = None \<and> parse_int ''-1'' = Some (- 1) \<and> parse_int ''999'' = Some 999
   \<and> update_review 10 (comparison_AC 1 3) ''abc'' = (comparison_AC 1 3, False)
   \<and> update_review 10 (comparison_AC 1 3) ''-1'' = (comparison_AC 1 3, False)
   \<and> update_review 10 (comparison_AC 1 3) ''999'' = (comparison_AC 1 3, False)
   \<and> comparison_view (update_review 10) (scenario 1 2 3) (post_review ''999'' True)
       exercise_E ''A'' ''C'' 2
       = Inr (JsonResponse (Success False) :: match_graph response, comparison_AC 1 3)"
proof -
  have p: "parse_int ''abc'' = None" "parse_int ''-1'' = Some (- 1)"
    "parse_int ''999'' = Some 999"
    by (simp_all add: parse_defs)
  have f: "get_object_or_404 (scenario 1 2 3) exercise_E 2 ''A'' ''C'' = Inr (comparison_AC 1 3)"
    by (simp add: get_object_or_404_def example_defs)
  have r: "http_method (post_review ''999'' True) = ''POST''"
    "map_of (POST (post_review ''999'' True)) ''review'' = Some ''999''"
    "is_ajax (post_review ''999'' True)"
    by (simp_all add: post_review_def)
  have bad:
    "parse_int ''abc'' = None \<or> (\<exists>r. parse_int ''abc'' = Some r \<and> (r < 0 \<or> 10 < r))"
    "parse_int ''-1'' = None \<or> (\<exists>r. parse_int ''-1'' = Some r \<and> (r < 0 \<or> 10 < r))"
    "parse_int ''999'' = None \<or> (\<exists>r. parse_int ''999'' = Some r \<and> (r < 0 \<or> 10 < r))"
    by (simp_all add: p)
  note a = update_review_rejects [OF bad(1), of "comparison_AC 1 3", where ?'g = match_graph]
  note b = update_review_rejects [OF bad(2), of "comparison_AC 1 3", where ?'g = match_graph]
  note c = update_review_rejects [OF bad(3), of "comparison_AC 1 3", where ?'g = match_graph]
  from c f r have "comparison_view (update_review 10) (scenario 1 2 3)
       (post_review ''999'' True) exercise_E ''A'' ''C'' 2
       = Inr (JsonResponse (Success False) :: match_graph response, comparison_AC 1 3)"
    by (simp del: One_nat_def)
  with a b c p show ?thesis
    by blast
qed

text \<open>
  C6, as stated, fails: a POST request that is not an AJAX request gets the page of the
  comparison, after the update, and no \<^verbatim>\<open>{ "success": ... }\<close>.
\<close>

theorem comparison_post_page_counterexample:
  "comparison_view (update_review 10) (scenario 1 2 3) (post_review ''6'' False)
       exercise_E ''A'' ''C'' 2
     = Inr (RenderComparison ((comparison_AC 1 3)\<lparr>review := 6\<rparr>) False
              (submission_by student_A 1) (submission_by student_C 3) :: match_graph response,
            (comparison_AC 1 3)\<lparr>review := 6\<rparr>)"
  by (simp add: comparison_view_def get_object_or_404_def render_comparison_def
        update_review_def parse_defs example_defs)

text \<open>
  C6, amended: for every AJAX POST request that names an existing comparison, and every
  \<^verbatim>\<open>update_review\<close>, the response is \<^verbatim>\<open>{ "success": b }\<close>, where \<open>b\<close> is false when
  the request has no field \<^verbatim>\<open>review\<close> and the result of \<^verbatim>\<open>update_review\<close> on that field
  otherwise; the stored comparison is the one \<^verbatim>\<open>update_review\<close> leaves.
\<close>

theorem comparison_ajax_post_success:
  assumes "get_object_or_404 objects ex ck ak bk = Inr c"
    and "http_method request = ''POST''"
    and "is_ajax request"
  shows "comparison_view upd objects request ex ak bk ck =
     Inr (JsonResponse (Success (case map_of (POST request) ''review'' of
                                   None \<Rightarrow> False | Some v \<Rightarrow> snd (upd c v))),
          case map_of (POST request) ''review'' of None \<Rightarrow> c | Some v \<Rightarrow> fst (upd c v))"
  using assms by (simp add: comparison_view_post)

theorem comparison_ajax_post_success_witness:
  "get_object_or_404 (scenario 1 2 3) exercise_E 3 ''B'' ''C'' = Inr (comparison_BC 2 3)
   \<and> http_method (post_review ''7'' True) = ''POST''
   \<and> is_ajax (post_review ''7'' True)
   \<and> comparison_view (update_review 10) (scenario 1 2 3) (post_review ''7'' True)
       exercise_E ''B'' ''C'' 3
       = Inr (JsonResponse (Success True) :: match_graph response,
              (comparison_BC 2 3)\<lparr>review := 7\<rparr>)"
proof -
  have f: "get_object_or_404 (scenario 1 2 3) exercise_E 3 ''B'' ''C'' = Inr (comparison_BC 2 3)"
    by (simp add: get_object_or_404_def example_defs)
  have r: "http_method (post_review ''7'' True) = ''POST''" "is_ajax (post_review ''7'' True)"
    by (simp_all add: post_review_def)
  have v: "map_of (POST (post_review ''7'' True)) ''review'' = Some ''7''"
    by (simp add: post_review_def)
  have u: "update_review 10 (comparison_BC 2 3) ''7'' = ((comparison_BC 2 3)\<lparr>review := 7\<rparr>, True)"
    by (simp add: update_review_def parse_defs)
  have "comparison_view (update_review 10) (scenario 1 2 3) (post_review ''7'' True)
       exercise_E ''B'' ''C'' 3
       = Inr (JsonResponse (Success True) :: match_graph response,
              (comparison_BC 2 3)\<lparr>review := 7\<rparr>)"
    using comparison_ajax_post_success [OF f r, of "update_review 10", where ?'a = match_graph]
    by (simp only: v u option.case fst_conv snd_conv)
  with f r show ?thesis
    by blast
qed

text \<open>
  C7: for a score within the scale, a second \<^verbatim>\<open>update_review\<close> with the same score, on
  the comparison that the first one stored, stores the same comparison again and reports
  success, as the first one did.
\<close>

theorem update_review_idempotent:
  assumes "parse_int new_score = Some r" and "0 \<le> r" and "r \<le> scale"
  shows "update_review scale (fst (update_review scale c new_score)) new_score
           = update_review scale c new_score
    \<and> update_review scale c new_score = (c\<lparr>review := r\<rparr>, True)"
  using assms by (simp add: update_review_valid)

theorem update_review_idempotent_witness:
  "parse_int ''6'' = Some 6 \<and> (0::int) \<le> 6 \<and> (6::int) \<le> 10
   \<and> update_review 10 (fst (update_review 10 (comparison_AB 1 2) ''6'')) ''6''
       = update_review 10 (comparison_AB 1 2) ''6''
   \<and> update_review 10 (comparison_AB 1 2) ''6'' = ((comparison_AB 1 2)\<lparr>review := 6\<rparr>, True)"
proof -
  have p: "parse_int ''6'' = Some 6"
    by (simp add: parse_defs)
  have l: "(0::int) \<le> 6" "(6::int) \<le> 10"
    by simp_all
  from update_review_idempotent [OF p l, of "comparison_AB 1 2"] p l show ?thesis
    by blast
qed

section \<open>The claim on the match graph\<close>

text \<open>
  C8: with a larger threshold the match graph of a course has no edge that it does not
  have with a smaller one.
\<close>

theorem build_edges_antitone:
  assumes "t1 < t2"
  shows "set (edges (build objects ck t2)) \<subseteq> set (edges (build objects ck t1))"
proof
  fix e
  assume "e \<in> set (edges (build objects ck t2))"
  then have e: "(fst e, snd e) \<in> set (edges (build objects ck t2))"
    by simp
  then obtain c where c: "c \<in> set objects"
      "course_key (course (exercise (submission_a c))) = ck"
      "t2 \<le> similarity c" "student_pair c = fst e" "similarity c = snd e"
    and top: "\<forall>c \<in> set objects. course_key (course (exercise (submission_a c))) = ck
         \<and> t2 \<le> similarity c \<and> student_pair c = fst e \<longrightarrow> similarity c \<le> snd e"
    unfolding edges_build_iff by blast
  have "\<forall>c' \<in> set objects. course_key (course (exercise (submission_a c'))) = ck
         \<and> t1 \<le> similarity c' \<and> student_pair c' = fst e \<longrightarrow> similarity c' \<le> snd e"
  proof (intro ballI impI)
    fix c'
    assume c': "c' \<in> set objects"
      "course_key (course (exercise (submission_a c'))) = ck
         \<and> t1 \<le> similarity c' \<and> student_pair c' = fst e"
    show "similarity c' \<le> snd e"
    proof (cases "t2 \<le> similarity c'")
      case True
      with c' top show ?thesis
        by blast
    next
      case False
      with c(3,5) show ?thesis
        by simp
    qed
  qed
  moreover from c assms have "\<exists>c \<in> set objects.
         course_key (course (exercise (submission_a c))) = ck
         \<and> t1 \<le> similarity c \<and> student_pair c = fst e \<and> similarity c = snd e"
    by (intro bexI [of _ c]) simp_all
  ultimately have "(fst e, snd e) \<in> set (edges (build objects ck t1))"
    unfolding edges_build_iff by blast
  then show "e \<in> set (edges (build objects ck t1))"
    by simp
qed

theorem build_edges_antitone_witness:
  "(1 / 2 :: real) < 23 / 25
   \<and> edges (build (scenario 1 2 3) ''X'' (23 / 25)) = [((''B'', ''C''), 19 / 20)]
   \<and> edges (build (scenario 1 2 3) ''X'' (1 / 2))
       = [((''A'', ''B''), 9 / 10), ((''B'', ''C''), 19 / 20)]
   \<and> set (edges (build (scenario 1 2 3) ''X'' (23 / 25)))
       \<subseteq> set (edges (build (scenario 1 2 3) ''X'' (1 / 2)))"
proof -
  have h: "(1 / 2 :: real) < 23 / 25"
    by simp
  have a: "edges (build (scenario 1 2 3) ''X'' (23 / 25)) = [((''B'', ''C''), 19 / 20)]"
    by (simp add: build_def student_pair_def example_defs)
  have b: "edges (build (scenario 1 2 3) ''X'' (1 / 2))
      = [((''A'', ''B''), 9 / 10), ((''B'', ''C''), 19 / 20)]"
    by (simp add: build_def student_pair_def example_defs)
  from build_edges_antitone [OF h, of "scenario 1 2 3" "''X''"] h a b show ?thesis
    by blast
qed

end
